theory Spec2Isabelle
  imports Complex_Main "HOL-Library.Monad_Syntax"
begin

section \<open>Configuration: app/config.py\<close>

text \<open>
  The class \<open>Settings\<close> declares fourteen typed fields with defaults. Python \<open>str\<close> is
  \<open>string\<close>, \<open>bool\<close> is \<open>bool\<close>, \<open>int\<close> is the unbounded \<open>int\<close>. A Python \<open>float\<close> is
  modelled by the real number it denotes: the model has no infinities, no NaN and no
  binary rounding, and every statement below about a float field is a statement about
  that real number.
\<close>

record Settings =
  APP_NAME :: string
  APP_VERSION :: string
  DEBUG :: bool
  HOST :: string
  PORT :: int
  LOG_LEVEL :: string
  LOG_FORMAT :: string
  INTERNAL_API_KEY :: string
  VOLUMESCAN_MODEL_VERSION :: string
  VOLUMESCAN_AUTO_ACCEPT_THRESHOLD :: real
  VOLUMESCAN_MANUAL_THRESHOLD :: real
  A4_WIDTH_MM :: real
  A4_HEIGHT_MM :: real
  DIMENSION_TOLERANCE_PERCENT :: real

text \<open>
  \<open>Settings()\<close> is built by the base class \<open>BaseSettings\<close> of pydantic-settings, which is
  not part of the repository. Two things of it are inputs of the model:
  \<^item> \<open>environ\<close>: the raw text the base class finds for a field, looked up under the exact
    field name (\<open>case_sensitive = True\<close>), in the process environment and the file
    \<open>.env\<close> (\<open>env_file = ".env"\<close>); \<open>None\<close> when neither mentions the field;
  \<^item> \<open>coercion\<close>: the conversion of such a text to \<open>bool\<close>, \<open>int\<close> and \<open>float\<close>, \<open>None\<close>
    when the text cannot be converted.
  Every theorem on the configuration holds for all coercions.
\<close>

type_synonym environ = "string \<rightharpoonup> string"

record coercion =
  to_bool :: "string \<Rightarrow> bool option"
  to_int :: "string \<Rightarrow> int option"
  to_float :: "string \<Rightarrow> real option"

datatype error = ValidationError

text \<open>A \<open>str\<close> field takes the text as it is, or its default.\<close>

definition str_field :: "environ \<Rightarrow> string \<Rightarrow> string \<Rightarrow> string" where
  "str_field env name dflt = (case env name of None \<Rightarrow> dflt | Some v \<Rightarrow> v)"

text \<open>A typed field takes the converted text, or its default; \<open>None\<close> is a failed validation.\<close>

definition typed_field :: "(string \<Rightarrow> 'a option) \<Rightarrow> environ \<Rightarrow> string \<Rightarrow> 'a \<Rightarrow> 'a option" where
  "typed_field conv env name dflt = (case env name of None \<Rightarrow> Some dflt | Some v \<Rightarrow> conv v)"

definition validate_fields :: "coercion \<Rightarrow> environ \<Rightarrow> Settings option" where
  "validate_fields co env = do {
     debug \<leftarrow> typed_field (to_bool co) env ''DEBUG'' False;
     port \<leftarrow> typed_field (to_int co) env ''PORT'' 8000;
     auto_accept \<leftarrow> typed_field (to_float co) env ''VOLUMESCAN_AUTO_ACCEPT_THRESHOLD'' 0.85;
     manual \<leftarrow> typed_field (to_float co) env ''VOLUMESCAN_MANUAL_THRESHOLD'' 0.60;
     a4_width \<leftarrow> typed_field (to_float co) env ''A4_WIDTH_MM'' 210.0;
     a4_height \<leftarrow> typed_field (to_float co) env ''A4_HEIGHT_MM'' 297.0;
     tolerance \<leftarrow> typed_field (to_float co) env ''DIMENSION_TOLERANCE_PERCENT'' 10.0;
     Some \<lparr> APP_NAME = str_field env ''APP_NAME'' ''translogistics-ai-engine'',
            APP_VERSION = str_field env ''APP_VERSION'' ''0.1.0'',
            DEBUG = debug,
            HOST = str_field env ''HOST'' ''0.0.0.0'',
            PORT = port,
            LOG_LEVEL = str_field env ''LOG_LEVEL'' ''INFO'',
            LOG_FORMAT = str_field env ''LOG_FORMAT'' ''json'',
            INTERNAL_API_KEY = str_field env ''INTERNAL_API_KEY'' ''dev-internal-key'',
            VOLUMESCAN_MODEL_VERSION = str_field env ''VOLUMESCAN_MODEL_VERSION'' ''v0.1.0'',
            VOLUMESCAN_AUTO_ACCEPT_THRESHOLD = auto_accept,
            VOLUMESCAN_MANUAL_THRESHOLD = manual,
            A4_WIDTH_MM = a4_width,
            A4_HEIGHT_MM = a4_height,
            DIMENSION_TOLERANCE_PERCENT = tolerance \<rparr>
   }"

text \<open>\<open>Settings()\<close>: the instance, or the validation error raised by the base class.\<close>

definition Settings_init :: "coercion \<Rightarrow> environ \<Rightarrow> error + Settings" where
  "Settings_init co env =
     (case validate_fields co env of None \<Rightarrow> Inl ValidationError | Some s \<Rightarrow> Inr s)"

subsection \<open>Malformed environments\<close>

text \<open>
  The condition of the specification, in its words: a numeric or boolean field is given a
  text that cannot be coerced to the declared type of the field.
\<close>

definition rejects :: "(string \<Rightarrow> 'a option) \<Rightarrow> environ \<Rightarrow> string \<Rightarrow> bool" where
  "rejects conv env name = (case env name of None \<Rightarrow> False | Some v \<Rightarrow> conv v = None)"

definition malformed :: "coercion \<Rightarrow> environ \<Rightarrow> bool" where
  "malformed co env =
     (rejects (to_bool co) env ''DEBUG''
      \<or> rejects (to_int co) env ''PORT''
      \<or> list_ex (rejects (to_float co) env)
           [''VOLUMESCAN_AUTO_ACCEPT_THRESHOLD'', ''VOLUMESCAN_MANUAL_THRESHOLD'',
            ''A4_WIDTH_MM'', ''A4_HEIGHT_MM'', ''DIMENSION_TOLERANCE_PERCENT''])"

subsection \<open>The process state\<close>

text \<open>
  The module-level state of the process. An object is a pair of its identity and its
  value (no code of the repository mutates a \<open>Settings\<close> object): \<open>constructed\<close> counts the
  \<open>Settings\<close> objects built so far and gives the next identity. \<open>settings_cache\<close> is the
  one entry of the \<open>lru_cache\<close> around \<open>get_settings\<close>, a function of no argument.
  \<open>START_TIME\<close> is the constant of \<open>app/routers/health.py\<close>, and \<open>logger\<close> lists the calls
  made on the module-level \<open>logger\<close> of \<open>app/utils/logger.py\<close>, oldest first.
\<close>

datatype log_value = Str string | Dict "(string \<times> bool) list"

record log_call =
  log_method :: string
  event :: string
  kwargs :: "(string \<times> log_value) list"

type_synonym Settings_obj = "nat \<times> Settings"

record process =
  settings_cache :: "Settings_obj option"
  constructed :: nat
  START_TIME :: real
  logger :: "log_call list"

text \<open>
  \<open>get_settings\<close> under \<open>@lru_cache()\<close>: a hit returns the cached object and runs nothing;
  a miss runs \<open>Settings()\<close>, and stores the result only when the call returns (an
  exception passes through the cache and leaves it empty).
\<close>

definition get_settings :: "coercion \<Rightarrow> environ \<Rightarrow> process \<Rightarrow> (error + Settings_obj) \<times> process" where
  "get_settings co env st =
     (case settings_cache st of
        Some obj \<Rightarrow> (Inr obj, st)
      | None \<Rightarrow>
          (case Settings_init co env of
             Inl e \<Rightarrow> (Inl e, st)
           | Inr s \<Rightarrow>
               (let obj = (constructed st, s)
                in (Inr obj, st\<lparr>settings_cache := Some obj, constructed := Suc (constructed st)\<rparr>))))"

section \<open>Health router: app/routers/health.py\<close>

record HealthResponse =
  status :: string
  service :: string
  version :: string
  uptime_seconds :: real
  model_version :: string

record LivenessResponse =
  status :: string

record ReadinessResponse =
  status :: string
  checks :: "(string \<times> bool) list"

text \<open>The \<open>Response\<close> object that the framework hands to \<open>readiness_probe\<close>.\<close>

record Response =
  status_code :: int

subsection \<open>Python's round on a float, to n decimals\<close>

text \<open>
  \<open>round(x, n)\<close> rounds the value of \<open>x\<close> to the nearest multiple of \<open>10 ^ -n\<close>, a tie
  going to the even multiple.
\<close>

definition round_half_even :: "real \<Rightarrow> int" where
  "round_half_even y =
     (let f = \<lfloor>y\<rfloor>; d = y - of_int f
      in if d < 1 / 2 then f
         else if 1 / 2 < d then f + 1
         else if even f then f else f + 1)"

definition py_round :: "real \<Rightarrow> nat \<Rightarrow> real" where
  "py_round x n = of_int (round_half_even (x * 10 ^ n)) / 10 ^ n"

subsection \<open>The three probes\<close>

text \<open>\<open>now\<close> is the value that \<open>time.time()\<close> returns in the call.\<close>

definition health_check :: "coercion \<Rightarrow> environ \<Rightarrow> real \<Rightarrow> process \<Rightarrow> (error + HealthResponse) \<times> process" where
  "health_check co env now st =
     (case get_settings co env st of
        (Inl e, st') \<Rightarrow> (Inl e, st')
      | (Inr settings, st') \<Rightarrow>
          (Inr \<lparr> HealthResponse.status = ''ok'',
                 service = APP_NAME (snd settings),
                 version = APP_VERSION (snd settings),
                 uptime_seconds = py_round (now - START_TIME st') 2,
                 model_version = VOLUMESCAN_MODEL_VERSION (snd settings) \<rparr>, st'))"

definition liveness_probe :: "process \<Rightarrow> LivenessResponse \<times> process" where
  "liveness_probe st = (\<lparr> LivenessResponse.status = ''ok'' \<rparr>, st)"

text \<open>
  A \<open>dict[str, bool]\<close> is the list of its items in insertion order; \<open>values\<close> and \<open>all\<close>
  are Python's.
\<close>

definition dict_values :: "(string \<times> bool) list \<Rightarrow> bool list" where
  "dict_values d = map snd d"

primrec py_all :: "bool list \<Rightarrow> bool" where
  "py_all [] = True"
| "py_all (b # bs) = (if b then py_all bs else False)"

text \<open>
  \<open>readiness_probe\<close> first binds \<open>checks\<close> to a dict literal; \<open>readiness_eval\<close> is the rest
  of its body, for the dict \<open>cs\<close> that \<open>checks\<close> is bound to.
\<close>

definition readiness_eval ::
  "(string \<times> bool) list \<Rightarrow> Response \<Rightarrow> process \<Rightarrow> ReadinessResponse \<times> Response \<times> process" where
  "readiness_eval cs response st =
     (let all_ready = py_all (dict_values cs);
          (response', st') =
            (if \<not> all_ready
             then (response\<lparr>status_code := 503\<rparr>,
                   st\<lparr>logger := logger st @
                      [\<lparr> log_method = ''warning'', event = ''Readiness check failed'',
                         kwargs = [(''checks'', Dict cs)] \<rparr>]\<rparr>)
             else (response, st))
      in (\<lparr> ReadinessResponse.status = (if all_ready then ''ready'' else ''not_ready''),
            checks = cs \<rparr>, response', st'))"

definition readiness_probe :: "Response \<Rightarrow> process \<Rightarrow> ReadinessResponse \<times> Response \<times> process" where
  "readiness_probe response st = readiness_eval [(''model_loaded'', True)] response st"

section \<open>Logging: app/utils/logger.py\<close>

text \<open>
  \<open>setup_logging\<close> hands a list of processors to \<open>structlog.configure\<close>. The processors
  are objects of the structlog library; the model names them and keeps the arguments
  they are built with. What a processor does to a log record is the library's and is not
  modelled.
\<close>

datatype Processor =
    merge_contextvars
  | add_log_level
  | StackInfoRenderer
  | TimeStamper string
  | ConsoleRenderer bool
  | format_exc_info
  | JSONRenderer

text \<open>The value of \<open>shared_processors\<close> when \<open>setup_logging\<close> calls \<open>structlog.configure\<close>.\<close>

definition setup_logging_processors :: "Settings \<Rightarrow> Processor list" where
  "setup_logging_processors settings =
     (let shared_processors =
            [merge_contextvars, add_log_level, StackInfoRenderer, TimeStamper ''iso'']
      in if LOG_FORMAT settings = ''console''
         then shared_processors @ [ConsoleRenderer True]
         else shared_processors @ [format_exc_info, JSONRenderer])"

subsection \<open>Concrete inputs for the examples\<close>

text \<open>
  A coercion for the examples: plain decimal literals, an optional minus sign, and six
  spellings of the truth values. Every other text is refused. It stands for the base
  class only at the inputs of the examples, which the base class reads the same way.
\<close>

definition digit_of :: "char \<Rightarrow> nat option" where
  "digit_of c = (let n = (of_char c :: nat) in if 48 \<le> n \<and> n \<le> 57 then Some (n - 48) else None)"

fun digits_val :: "nat \<Rightarrow> string \<Rightarrow> nat option" where
  "digits_val acc [] = Some acc"
| "digits_val acc (c # cs) =
     (case digit_of c of None \<Rightarrow> None | Some d \<Rightarrow> digits_val (10 * acc + d) cs)"

definition nat_literal :: "string \<Rightarrow> nat option" where
  "nat_literal s = (if s = [] then None else digits_val 0 s)"

definition int_literal :: "string \<Rightarrow> int option" where
  "int_literal s =
     (case s of
        [] \<Rightarrow> None
      | c # cs \<Rightarrow> if c = CHR ''-'' then map_option (\<lambda>n. - int n) (nat_literal cs)
                 else map_option int (nat_literal s))"

definition unsigned_decimal :: "string \<Rightarrow> real option" where
  "unsigned_decimal s =
     (let whole = takeWhile (\<lambda>c. c \<noteq> CHR ''.'') s;
          rest = dropWhile (\<lambda>c. c \<noteq> CHR ''.'') s
      in case rest of
           [] \<Rightarrow> map_option real (nat_literal whole)
         | dot # decimals \<Rightarrow>
             (case (nat_literal whole, nat_literal decimals) of
                (Some a, Some b) \<Rightarrow> Some (real a + real b / 10 ^ length decimals)
              | _ \<Rightarrow> None))"

definition float_literal :: "string \<Rightarrow> real option" where
  "float_literal s =
     (case s of
        [] \<Rightarrow> None
      | c # cs \<Rightarrow> if c = CHR ''-'' then map_option uminus (unsigned_decimal cs)
                 else unsigned_decimal s)"

definition bool_literal :: "string \<Rightarrow> bool option" where
  "bool_literal s =
     (if s \<in> set [''1'', ''true'', ''True''] then Some True
      else if s \<in> set [''0'', ''false'', ''False''] then Some False
      else None)"

definition plain_literals :: coercion where
  "plain_literals = \<lparr> to_bool = bool_literal, to_int = int_literal, to_float = float_literal \<rparr>"

text \<open>A process in which nothing has run yet, started at clock value 1000.\<close>

definition fresh_process :: process where
  "fresh_process = \<lparr> settings_cache = None, constructed = 0, START_TIME = 1000, logger = [] \<rparr>"

definition response_200 :: Response where
  "response_200 = \<lparr> status_code = 200 \<rparr>"

text \<open>An environment that overrides fields the probes do not show.\<close>

definition secret_env :: environ where
  "secret_env = [''INTERNAL_API_KEY'' \<mapsto> ''s3cret'', ''PORT'' \<mapsto> ''9000'', ''DEBUG'' \<mapsto> ''true'',
     ''LOG_FORMAT'' \<mapsto> ''console'', ''VOLUMESCAN_MANUAL_THRESHOLD'' \<mapsto> ''0.5'']"

section \<open>Properties\<close>

subsection \<open>Liveness\<close>

text \<open>
  Claim C5. In every state of the process, and for every outcome of the readiness checks,
  \<open>liveness_probe\<close> returns exactly the response with status "ok", and it leaves the
  process state (settings cache, logger, start time) as it found it.
\<close>

theorem liveness_probe_ok:
  "liveness_probe st = (\<lparr> LivenessResponse.status = ''ok'' \<rparr>, st)
   \<and> fst (liveness_probe (snd (snd (readiness_eval cs response st))))
       = \<lparr> LivenessResponse.status = ''ok'' \<rparr>"
  by (simp add: liveness_probe_def)


subsection \<open>Readiness\<close>

lemma py_all_iff: "py_all bs \<longleftrightarrow> (\<forall>b\<in>set bs. b)"
  by (induction bs) simp_all

lemma py_all_values: "py_all (dict_values cs) \<longleftrightarrow> (\<forall>(name, ok)\<in>set cs. ok)"
  by (auto simp: py_all_iff dict_values_def)

text \<open>
  Claim C1. For every check map \<open>cs\<close> that the body of \<open>readiness_probe\<close> evaluates, the
  returned status is "ready" exactly when every entry of \<open>cs\<close> is true and "not_ready"
  exactly when some entry is false, and the \<open>checks\<close> field of the response is \<open>cs\<close>
  itself. \<open>readiness_probe\<close> evaluates the map with the single entry \<open>model_loaded: True\<close>
  and so answers "ready" with that entry.
\<close>

theorem readiness_probe_all_checks:
  "(ReadinessResponse.status (fst (readiness_eval cs response st)) = ''ready'')
     = (\<forall>(name, ok)\<in>set cs. ok)
   \<and> (ReadinessResponse.status (fst (readiness_eval cs response st)) = ''not_ready'')
     = (\<exists>(name, ok)\<in>set cs. \<not> ok)
   \<and> checks (fst (readiness_eval cs response st)) = cs
   \<and> fst (readiness_probe response st)
     = \<lparr> ReadinessResponse.status = ''ready'', checks = [(''model_loaded'', True)] \<rparr>"
proof -
  let ?r = "fst (readiness_eval cs response st)"
  have st: "ReadinessResponse.status ?r = (if py_all (dict_values cs) then ''ready'' else ''not_ready'')"
    by (simp add: readiness_eval_def Let_def split: prod.splits)
  have ch: "checks ?r = cs"
    by (simp add: readiness_eval_def Let_def split: prod.splits)
  have lit: "fst (readiness_probe response st)
     = \<lparr> ReadinessResponse.status = ''ready'', checks = [(''model_loaded'', True)] \<rparr>"
    by (simp add: readiness_probe_def readiness_eval_def dict_values_def)
  from st have "(ReadinessResponse.status ?r = ''ready'') = (\<forall>(name, ok)\<in>set cs. ok)"
    by (simp add: py_all_values)
  moreover from st have "(ReadinessResponse.status ?r = ''not_ready'') = (\<exists>(name, ok)\<in>set cs. \<not> ok)"
    by (auto simp: py_all_values)
  ultimately show ?thesis using ch lit by blast
qed

theorem readiness_probe_all_checks_witness:
  "ReadinessResponse.status
     (fst (readiness_eval [(''a'', True), (''b'', False)] response_200 fresh_process)) = ''not_ready''
   \<and> checks (fst (readiness_eval [(''a'', True), (''b'', False)] response_200 fresh_process))
     = [(''a'', True), (''b'', False)]
   \<and> ReadinessResponse.status
     (fst (readiness_eval [(''a'', True), (''b'', True)] response_200 fresh_process)) = ''ready''"
  using readiness_probe_all_checks [of "[(''a'', True), (''b'', False)]" response_200 fresh_process]
    readiness_probe_all_checks [of "[(''a'', True), (''b'', True)]" response_200 fresh_process]
  by simp

text \<open>
  Claim C6. When some entry of the evaluated check map is false, the body of
  \<open>readiness_probe\<close> sets the status code of the response to 503 and makes exactly one
  call on the logger, a warning "Readiness check failed" that carries the whole check
  map, and changes nothing else; when every entry is true, it returns the response and
  the process state as it received them (no call on the logger, status code untouched).
\<close>

theorem readiness_probe_not_ready_effects:
  "(\<not> (\<forall>(name, ok)\<in>set cs. ok) \<longrightarrow>
      snd (readiness_eval cs response st)
        = (response\<lparr>status_code := 503\<rparr>,
           st\<lparr>logger := logger st @
              [\<lparr> log_method = ''warning'', event = ''Readiness check failed'',
                 kwargs = [(''checks'', Dict cs)] \<rparr>]\<rparr>))
   \<and> ((\<forall>(name, ok)\<in>set cs. ok) \<longrightarrow> snd (readiness_eval cs response st) = (response, st))
   \<and> snd (readiness_probe response st) = (response, st)"
proof -
  have "snd (readiness_probe response st) = (response, st)"
    by (simp add: readiness_probe_def readiness_eval_def dict_values_def)
  moreover have "py_all (dict_values cs) \<Longrightarrow> snd (readiness_eval cs response st) = (response, st)"
    by (simp add: readiness_eval_def)
  moreover have "\<not> py_all (dict_values cs) \<Longrightarrow>
      snd (readiness_eval cs response st)
        = (response\<lparr>status_code := 503\<rparr>,
           st\<lparr>logger := logger st @
              [\<lparr> log_method = ''warning'', event = ''Readiness check failed'',
                 kwargs = [(''checks'', Dict cs)] \<rparr>]\<rparr>)"
    by (simp add: readiness_eval_def)
  ultimately show ?thesis
    unfolding py_all_values by blast
qed

theorem readiness_probe_not_ready_effects_witness:
  "status_code (fst (snd (readiness_eval [(''a'', True), (''b'', False)] response_200 fresh_process)))
     = 503
   \<and> logger (snd (snd (readiness_eval [(''a'', True), (''b'', False)] response_200 fresh_process)))
     = [\<lparr> log_method = ''warning'', event = ''Readiness check failed'',
          kwargs = [(''checks'', Dict [(''a'', True), (''b'', False)])] \<rparr>]
   \<and> snd (readiness_eval [(''a'', True), (''b'', True)] response_200 fresh_process)
     = (response_200, fresh_process)"
  using readiness_probe_not_ready_effects [of "[(''a'', True), (''b'', False)]" response_200 fresh_process]
    readiness_probe_not_ready_effects [of "[(''a'', True), (''b'', True)]" response_200 fresh_process]
  by (simp add: fresh_process_def)

subsection \<open>Configuration\<close>

lemmas lit = digit_of_def nat_literal_def int_literal_def unsigned_decimal_def
  float_literal_def bool_literal_def plain_literals_def

lemma typed_field_None: "typed_field conv env name dflt = None \<longleftrightarrow> rejects conv env name"
  by (simp add: typed_field_def rejects_def split: option.splits)

lemma validate_fields_None: "validate_fields co env = None \<longleftrightarrow> malformed co env"
proof -
  have some: "typed_field conv env name dflt = Some x \<Longrightarrow> \<not> rejects conv env name"
    for conv :: "string \<Rightarrow> 'b option" and name dflt x
    using typed_field_None [of conv env name dflt] by simp
  show ?thesis
    unfolding validate_fields_def malformed_def
    by (auto simp: bind_eq_None_conv typed_field_None dest: some)
qed

lemma Settings_init_fails_iff: "Settings_init co env = Inl ValidationError \<longleftrightarrow> malformed co env"
  by (simp add: Settings_init_def validate_fields_None [symmetric] split: option.splits)

lemma Settings_init_cases: "Settings_init co env = Inl ValidationError \<or> (\<exists>s. Settings_init co env = Inr s)"
  by (simp add: Settings_init_def split: option.splits)

lemma get_settings_hit: "settings_cache st = Some obj \<Longrightarrow> get_settings co env st = (Inr obj, st)"
  by (simp add: get_settings_def)

lemma get_settings_miss:
  "settings_cache st = None \<Longrightarrow>
   get_settings co env st =
     (case Settings_init co env of
        Inl e \<Rightarrow> (Inl e, st)
      | Inr s \<Rightarrow> (Inr (constructed st, s),
                  st\<lparr>settings_cache := Some (constructed st, s), constructed := Suc (constructed st)\<rparr>))"
  by (simp add: get_settings_def Let_def split: sum.splits)

text \<open>
  Claim C2. When the environment is valid (\<open>Settings()\<close> succeeds on it), a call of
  \<open>get_settings\<close> returns an object, and a second call in sequence returns the same
  object (same identity, same value) whatever the environment has become, does not
  construct anything and leaves the process state untouched. When the cache was empty,
  the object is the one built from the environment of the first call.
\<close>

theorem get_settings_same_instance:
  assumes "Settings_init co env = Inr s"
  shows "\<exists>obj st1. get_settings co env st = (Inr obj, st1)
           \<and> (\<forall>env'. get_settings co env' st1 = (Inr obj, st1))
           \<and> (settings_cache st = None \<longrightarrow> obj = (constructed st, s))"
proof (cases "settings_cache st")
  case None
  with assms show ?thesis by (simp add: get_settings_miss get_settings_hit)
next
  case (Some obj)
  then show ?thesis by (simp add: get_settings_hit)
qed

theorem get_settings_same_instance_witness:
  "\<exists>obj st1. get_settings plain_literals Map.empty fresh_process = (Inr obj, st1)
     \<and> get_settings plain_literals [''PORT'' \<mapsto> ''http''] st1 = (Inr obj, st1)
     \<and> fst obj = 0 \<and> PORT (snd obj) = 8000"
proof -
  have ok: "Settings_init plain_literals Map.empty
     = Inr (the (validate_fields plain_literals Map.empty))"
    by (simp add: Settings_init_def validate_fields_def typed_field_def)
  have "PORT (the (validate_fields plain_literals Map.empty)) = 8000"
    by (simp add: validate_fields_def typed_field_def)
  with get_settings_same_instance [OF ok, of fresh_process] show ?thesis
    by (auto simp: fresh_process_def)
qed

text \<open>
  Claim C3. When the environment is malformed and nothing is cached yet, \<open>get_settings\<close>
  fails with the validation error, the cache stays empty, and the next call constructs
  again: it returns what \<open>Settings()\<close> gives on the environment of that call.
\<close>

theorem get_settings_malformed_not_cached:
  assumes "malformed co env" and "settings_cache st = None"
  shows "get_settings co env st = (Inl ValidationError, st)
         \<and> settings_cache (snd (get_settings co env st)) = None
         \<and> (\<forall>env2. fst (get_settings co env2 (snd (get_settings co env st)))
              = (case Settings_init co env2 of
                   Inl e \<Rightarrow> Inl e | Inr s2 \<Rightarrow> Inr (constructed st, s2)))"
proof -
  from assms(1) have "Settings_init co env = Inl ValidationError"
    by (simp add: Settings_init_fails_iff)
  with assms(2) have first: "get_settings co env st = (Inl ValidationError, st)"
    by (simp add: get_settings_miss)
  moreover have "fst (get_settings co env2 st)
       = (case Settings_init co env2 of Inl e \<Rightarrow> Inl e | Inr s2 \<Rightarrow> Inr (constructed st, s2))" for env2
    using assms(2) by (simp add: get_settings_miss split: sum.splits)
  ultimately show ?thesis using assms(2) by simp
qed

theorem get_settings_malformed_not_cached_witness:
  "malformed plain_literals [''PORT'' \<mapsto> ''http'']
   \<and> get_settings plain_literals [''PORT'' \<mapsto> ''http''] fresh_process
       = (Inl ValidationError, fresh_process)
   \<and> map_sum id (\<lambda>obj. (fst obj, PORT (snd obj)))
       (fst (get_settings plain_literals [''PORT'' \<mapsto> ''8080'']
          (snd (get_settings plain_literals [''PORT'' \<mapsto> ''http''] fresh_process))))
       = Inr (0, 8080)"
proof -
  have bad: "malformed plain_literals [''PORT'' \<mapsto> ''http'']"
    by (simp add: malformed_def rejects_def lit)
  have fresh: "settings_cache fresh_process = None"
    by (simp add: fresh_process_def)
  have second: "Settings_init plain_literals [''PORT'' \<mapsto> ''8080'']
      = Inr (the (validate_fields plain_literals [''PORT'' \<mapsto> ''8080'']))"
    by (simp add: Settings_init_def validate_fields_def typed_field_def lit)
  have port: "PORT (the (validate_fields plain_literals [''PORT'' \<mapsto> ''8080''])) = 8080"
    by (simp add: validate_fields_def typed_field_def lit)
  note inst = get_settings_malformed_not_cached [OF bad fresh]
  from inst have first: "get_settings plain_literals [''PORT'' \<mapsto> ''http''] fresh_process
       = (Inl ValidationError, fresh_process)"
    by blast
  from inst have "fst (get_settings plain_literals [''PORT'' \<mapsto> ''8080'']
          (snd (get_settings plain_literals [''PORT'' \<mapsto> ''http''] fresh_process)))
       = (case Settings_init plain_literals [''PORT'' \<mapsto> ''8080''] of
            Inl e \<Rightarrow> Inl e | Inr s2 \<Rightarrow> Inr (constructed fresh_process, s2))"
    by blast
  with second port have "map_sum id (\<lambda>obj. (fst obj, PORT (snd obj)))
       (fst (get_settings plain_literals [''PORT'' \<mapsto> ''8080'']
          (snd (get_settings plain_literals [''PORT'' \<mapsto> ''http''] fresh_process))))
       = Inr (0, 8080)"
    by (simp add: fresh_process_def)
  with bad first show ?thesis by blast
qed

subsection \<open>Rounding\<close>

lemma round_half_even_bounds:
  "of_int (round_half_even y) - 1 / 2 \<le> y \<and> y \<le> of_int (round_half_even y) + 1 / 2"
  unfolding round_half_even_def Let_def by (auto; linarith)

lemma round_half_even_of_int: "round_half_even (of_int k) = k"
  by (simp add: round_half_even_def)

lemma round_half_even_mono:
  assumes "x \<le> y" shows "round_half_even x \<le> round_half_even y"
proof (cases "\<lfloor>x\<rfloor> = \<lfloor>y\<rfloor>")
  case True
  with assms show ?thesis
    unfolding round_half_even_def Let_def by auto
next
  case False
  with assms have lt: "\<lfloor>x\<rfloor> + 1 \<le> \<lfloor>y\<rfloor>"
    using floor_mono [of x y] by linarith
  have "round_half_even x \<le> \<lfloor>x\<rfloor> + 1"
    unfolding round_half_even_def Let_def by auto
  moreover have "\<lfloor>y\<rfloor> \<le> round_half_even y"
    unfolding round_half_even_def Let_def by auto
  ultimately show ?thesis using lt by linarith
qed

lemma py_round_mono: "x \<le> y \<Longrightarrow> py_round x n \<le> py_round y n"
  unfolding py_round_def
  by (intro divide_right_mono of_int_le_iff [THEN iffD2] round_half_even_mono mult_right_mono) simp_all

lemma py_round_zero: "py_round 0 n = 0"
  by (simp add: py_round_def round_half_even_def)

lemma py_round_2_error: "\<bar>py_round x 2 - x\<bar> \<le> 1 / 200"
proof -
  define r :: real where "r = of_int (round_half_even (x * 100))"
  have eq: "py_round x 2 = r / 100"
    by (simp add: py_round_def r_def)
  from round_half_even_bounds [of "x * 100"]
  have "r - 1 / 2 \<le> x * 100" and "x * 100 \<le> r + 1 / 2"
    by (simp_all add: r_def)
  then show ?thesis unfolding eq by linarith
qed

lemma py_round_2_hundredths: "py_round x 2 * 100 = of_int (round_half_even (x * 100))"
  by (simp add: py_round_def)

subsection \<open>Health\<close>

lemma Settings_init_ok: "\<not> malformed co env \<Longrightarrow> \<exists>s. Settings_init co env = Inr s"
  using Settings_init_cases [of co env] Settings_init_fails_iff [of co env] by blast

lemma get_settings_returns:
  assumes "settings_cache st \<noteq> None \<or> \<not> malformed co env"
  shows "\<exists>obj st'. get_settings co env st = (Inr obj, st')"
proof (cases "settings_cache st")
  case None
  with assms obtain s where "Settings_init co env = Inr s"
    using Settings_init_ok by blast
  with None show ?thesis by (simp add: get_settings_miss)
next
  case (Some obj)
  then show ?thesis by (simp add: get_settings_hit)
qed

lemma get_settings_state:
  assumes "get_settings co env st = (Inr obj, st')"
  shows "settings_cache st' = Some obj \<and> START_TIME st' = START_TIME st \<and> logger st' = logger st"
  using assms by (auto simp: get_settings_def Let_def split: option.splits sum.splits)

lemma Settings_init_defaults:
  "\<exists>s. Settings_init co Map.empty = Inr s
     \<and> APP_NAME s = ''translogistics-ai-engine'' \<and> APP_VERSION s = ''0.1.0''
     \<and> VOLUMESCAN_MODEL_VERSION s = ''v0.1.0''"
  by (simp add: Settings_init_def validate_fields_def typed_field_def str_field_def)

text \<open>
  Claim C4. Importing \<open>app/routers/health.py\<close> imports \<open>app/utils/logger.py\<close>, whose
  \<open>setup_logging()\<close> calls \<open>get_settings()\<close>: a request finds the cache filled. In every
  state where the cache is filled or the environment is not malformed, \<open>health_check\<close>
  returns, with status "ok", the uptime \<open>now - START_TIME\<close> rounded to two decimals (a
  whole number of hundredths, at most half a hundredth away), and the service name, the
  version and the model version of the settings object that \<open>get_settings\<close> gives.
  With an environment that sets none of them, these three are
  "translogistics-ai-engine", "0.1.0" and "v0.1.0".
\<close>

theorem health_check_response:
  assumes "settings_cache st \<noteq> None \<or> \<not> malformed co env"
  shows "\<exists>obj st'. get_settings co env st = (Inr obj, st')
           \<and> health_check co env now st
               = (Inr \<lparr> HealthResponse.status = ''ok'',
                        service = APP_NAME (snd obj),
                        version = APP_VERSION (snd obj),
                        uptime_seconds = py_round (now - START_TIME st) 2,
                        model_version = VOLUMESCAN_MODEL_VERSION (snd obj) \<rparr>, st')
           \<and> \<bar>py_round (now - START_TIME st) 2 - (now - START_TIME st)\<bar> \<le> 1 / 200
           \<and> (\<exists>k :: int. py_round (now - START_TIME st) 2 * 100 = of_int k)
           \<and> (\<exists>s. Settings_init co Map.empty = Inr s
                 \<and> APP_NAME s = ''translogistics-ai-engine'' \<and> APP_VERSION s = ''0.1.0''
                 \<and> VOLUMESCAN_MODEL_VERSION s = ''v0.1.0'')"
proof -
  from get_settings_returns [OF assms]
  obtain obj st' where g: "get_settings co env st = (Inr obj, st')" by blast
  from get_settings_state [OF g] have "START_TIME st' = START_TIME st" by simp
  with g have "health_check co env now st
               = (Inr \<lparr> HealthResponse.status = ''ok'',
                        service = APP_NAME (snd obj),
                        version = APP_VERSION (snd obj),
                        uptime_seconds = py_round (now - START_TIME st) 2,
                        model_version = VOLUMESCAN_MODEL_VERSION (snd obj) \<rparr>, st')"
    by (simp add: health_check_def)
  with g py_round_2_error py_round_2_hundredths Settings_init_defaults show ?thesis
    by blast
qed

theorem health_check_response_witness:
  "health_check plain_literals [''VOLUMESCAN_AUTO_ACCEPT_THRESHOLD'' \<mapsto> ''0.85''] 1012.347 fresh_process
     = (Inr \<lparr> HealthResponse.status = ''ok'',
              service = ''translogistics-ai-engine'',
              version = ''0.1.0'',
              uptime_seconds = 12.35,
              model_version = ''v0.1.0'' \<rparr>,
        snd (get_settings plain_literals [''VOLUMESCAN_AUTO_ACCEPT_THRESHOLD'' \<mapsto> ''0.85'']
               fresh_process))"
proof -
  let ?env = "[''VOLUMESCAN_AUTO_ACCEPT_THRESHOLD'' \<mapsto> ''0.85'']"
  have valid: "settings_cache fresh_process \<noteq> None \<or> \<not> malformed plain_literals ?env"
    by (simp add: malformed_def rejects_def lit)
  have s: "Settings_init plain_literals ?env = Inr (the (validate_fields plain_literals ?env))"
    by (simp add: Settings_init_def validate_fields_def typed_field_def lit)
  have fields: "APP_NAME (the (validate_fields plain_literals ?env)) = ''translogistics-ai-engine''"
    "APP_VERSION (the (validate_fields plain_literals ?env)) = ''0.1.0''"
    "VOLUMESCAN_MODEL_VERSION (the (validate_fields plain_literals ?env)) = ''v0.1.0''"
    by (simp_all add: validate_fields_def typed_field_def str_field_def lit)
  have g: "fst (get_settings plain_literals ?env fresh_process)
      = Inr (0, the (validate_fields plain_literals ?env))"
    by (simp add: get_settings_miss s fresh_process_def)
  have up: "py_round (1012.347 - START_TIME fresh_process) 2 = 12.35"
    by (simp add: py_round_def round_half_even_def fresh_process_def)
  from health_check_response [OF valid, where now = "1012.347"] g fields up show ?thesis
    by auto
qed

text \<open>
  Claim C8 as stated fails: \<open>health_check\<close> reads the wall clock \<open>time.time()\<close>, which the
  system can set back. In a process started at clock reading 1000, a call at reading
  1000.5 returns the uptime 0.5, and the next call, made after the clock was set back and
  reading 1000.2, returns the uptime 0.2.
\<close>

theorem uptime_monotone_counterexample:
  "\<not> isl (fst (health_check plain_literals Map.empty 1000.5 fresh_process))
   \<and> \<not> isl (fst (health_check plain_literals Map.empty 1000.2
         (snd (health_check plain_literals Map.empty 1000.5 fresh_process))))
   \<and> uptime_seconds (projr (fst (health_check plain_literals Map.empty 1000.5 fresh_process))) = 0.5
   \<and> uptime_seconds (projr (fst (health_check plain_literals Map.empty 1000.2
         (snd (health_check plain_literals Map.empty 1000.5 fresh_process))))) = 0.2
   \<and> \<not> (uptime_seconds (projr (fst (health_check plain_literals Map.empty 1000.5 fresh_process)))
        \<le> uptime_seconds (projr (fst (health_check plain_literals Map.empty 1000.2
         (snd (health_check plain_literals Map.empty 1000.5 fresh_process))))))"
proof -
  have first: "health_check plain_literals Map.empty 1000.5 fresh_process
      = (Inr \<lparr> HealthResponse.status = ''ok'', service = ''translogistics-ai-engine'',
               version = ''0.1.0'', uptime_seconds = 0.5, model_version = ''v0.1.0'' \<rparr>,
         snd (get_settings plain_literals Map.empty fresh_process))"
    by (simp add: health_check_def get_settings_def Settings_init_def validate_fields_def
        typed_field_def str_field_def fresh_process_def py_round_def round_half_even_def Let_def)
  have st: "settings_cache (snd (get_settings plain_literals Map.empty fresh_process))
        = Some (0, the (validate_fields plain_literals Map.empty))
      \<and> START_TIME (snd (get_settings plain_literals Map.empty fresh_process)) = 1000"
    by (simp add: get_settings_def Settings_init_def validate_fields_def
        typed_field_def fresh_process_def Let_def)
  have second: "uptime_seconds (projr (fst (health_check plain_literals Map.empty 1000.2
         (snd (get_settings plain_literals Map.empty fresh_process))))) = 0.2
      \<and> \<not> isl (fst (health_check plain_literals Map.empty 1000.2
         (snd (get_settings plain_literals Map.empty fresh_process))))"
    using st
    by (simp add: health_check_def get_settings_hit py_round_def round_half_even_def Let_def)
  from first second show ?thesis by simp
qed

text \<open>
  Claim C8, amended. After a call of \<open>health_check\<close> that returned at clock reading \<open>t\<close>, a
  call in which \<open>time.time()\<close> reads a value \<open>u\<close> that is not smaller returns an uptime
  that is not smaller, and a call at the clock reading \<open>START_TIME\<close> returns the uptime 0.
\<close>

theorem uptime_monotone:
  assumes "health_check co env t st = (Inr r1, st')" and "t \<le> u"
  shows "(\<exists>r2. health_check co env' u st' = (Inr r2, st')
            \<and> uptime_seconds r1 \<le> uptime_seconds r2)
         \<and> (\<exists>r0. health_check co env'' (START_TIME st') st' = (Inr r0, st')
            \<and> uptime_seconds r0 = 0)"
proof -
  from assms(1) obtain obj where g: "get_settings co env st = (Inr obj, st')"
    and u1: "uptime_seconds r1 = py_round (t - START_TIME st') 2"
    by (auto simp: health_check_def split: prod.splits sum.splits)
  from get_settings_state [OF g] have c: "settings_cache st' = Some obj" by simp
  have later: "health_check co e x st'
      = (Inr \<lparr> HealthResponse.status = ''ok'', service = APP_NAME (snd obj),
               version = APP_VERSION (snd obj),
               uptime_seconds = py_round (x - START_TIME st') 2,
               model_version = VOLUMESCAN_MODEL_VERSION (snd obj) \<rparr>, st')" for e x
    by (simp add: health_check_def get_settings_hit [OF c])
  from assms(2) have "py_round (t - START_TIME st') 2 \<le> py_round (u - START_TIME st') 2"
    by (intro py_round_mono) simp
  with u1 later [of env' u] later [of env'' "START_TIME st'"] show ?thesis
    by (simp add: py_round_zero)
qed

theorem uptime_monotone_witness:
  "(\<exists>r1 r2 r0 st1.
      health_check plain_literals Map.empty 1000.004 fresh_process = (Inr r1, st1)
      \<and> health_check plain_literals Map.empty 1000.006 st1 = (Inr r2, st1)
      \<and> health_check plain_literals Map.empty 1000 st1 = (Inr r0, st1)
      \<and> uptime_seconds r1 \<le> uptime_seconds r2 \<and> uptime_seconds r0 = 0)"
proof -
  have "settings_cache fresh_process \<noteq> None \<or> \<not> malformed plain_literals Map.empty"
    by (simp add: malformed_def rejects_def)
  from get_settings_returns [OF this] obtain obj st1
    where g: "get_settings plain_literals Map.empty fresh_process = (Inr obj, st1)" by blast
  then obtain r1 where h: "health_check plain_literals Map.empty 1000.004 fresh_process = (Inr r1, st1)"
    by (simp add: health_check_def)
  from get_settings_state [OF g] have "START_TIME st1 = 1000"
    by (simp add: fresh_process_def)
  with uptime_monotone [OF h, where u = "1000.006" and env' = Map.empty and env'' = Map.empty] h show ?thesis
    by auto
qed

subsection \<open>Decision thresholds\<close>

lemma validate_fields_thresholds:
  assumes "validate_fields co env = Some s"
  shows "typed_field (to_float co) env ''VOLUMESCAN_AUTO_ACCEPT_THRESHOLD'' 0.85
           = Some (VOLUMESCAN_AUTO_ACCEPT_THRESHOLD s)
         \<and> typed_field (to_float co) env ''VOLUMESCAN_MANUAL_THRESHOLD'' 0.60
           = Some (VOLUMESCAN_MANUAL_THRESHOLD s)"
  using assms unfolding validate_fields_def
  by (auto simp: bind_eq_Some_conv)

text \<open>
  Claim C9 as stated fails: the threshold fields are plain \<open>float\<close> fields without a
  range constraint. The text "5.0" for \<open>VOLUMESCAN_AUTO_ACCEPT_THRESHOLD\<close> gives an
  instance whose threshold is 5.
\<close>

theorem settings_thresholds_counterexample:
  "\<not> isl (Settings_init plain_literals [''VOLUMESCAN_AUTO_ACCEPT_THRESHOLD'' \<mapsto> ''5.0''])
   \<and> VOLUMESCAN_AUTO_ACCEPT_THRESHOLD
        (projr (Settings_init plain_literals [''VOLUMESCAN_AUTO_ACCEPT_THRESHOLD'' \<mapsto> ''5.0''])) = 5
   \<and> \<not> (VOLUMESCAN_AUTO_ACCEPT_THRESHOLD
        (projr (Settings_init plain_literals [''VOLUMESCAN_AUTO_ACCEPT_THRESHOLD'' \<mapsto> ''5.0''])) \<le> 1)"
  by (simp add: Settings_init_def validate_fields_def typed_field_def lit)

text \<open>
  Claim C9, amended. In every constructed instance each of the two threshold fields holds
  its default (0.85, 0.60) when the environment gives no text for it, and then lies in
  the interval from 0 to 1; otherwise it holds the coerced value of the text, whatever
  its size.
\<close>

theorem settings_thresholds:
  assumes "Settings_init co env = Inr s"
  shows "(case env ''VOLUMESCAN_AUTO_ACCEPT_THRESHOLD'' of
            None \<Rightarrow> VOLUMESCAN_AUTO_ACCEPT_THRESHOLD s = 0.85
          | Some v \<Rightarrow> to_float co v = Some (VOLUMESCAN_AUTO_ACCEPT_THRESHOLD s))
       \<and> (case env ''VOLUMESCAN_MANUAL_THRESHOLD'' of
            None \<Rightarrow> VOLUMESCAN_MANUAL_THRESHOLD s = 0.60
          | Some v \<Rightarrow> to_float co v = Some (VOLUMESCAN_MANUAL_THRESHOLD s))
       \<and> (env ''VOLUMESCAN_AUTO_ACCEPT_THRESHOLD'' = None \<longrightarrow>
            0 \<le> VOLUMESCAN_AUTO_ACCEPT_THRESHOLD s \<and> VOLUMESCAN_AUTO_ACCEPT_THRESHOLD s \<le> 1)
       \<and> (env ''VOLUMESCAN_MANUAL_THRESHOLD'' = None \<longrightarrow>
            0 \<le> VOLUMESCAN_MANUAL_THRESHOLD s \<and> VOLUMESCAN_MANUAL_THRESHOLD s \<le> 1)"
proof -
  from assms have "validate_fields co env = Some s"
    by (simp add: Settings_init_def split: option.splits)
  from validate_fields_thresholds [OF this] show ?thesis
    by (auto simp: typed_field_def split: option.splits)
qed

theorem settings_thresholds_witness:
  "VOLUMESCAN_AUTO_ACCEPT_THRESHOLD
     (projr (Settings_init plain_literals [''VOLUMESCAN_MANUAL_THRESHOLD'' \<mapsto> ''1.5''])) = 0.85
   \<and> VOLUMESCAN_MANUAL_THRESHOLD
     (projr (Settings_init plain_literals [''VOLUMESCAN_MANUAL_THRESHOLD'' \<mapsto> ''1.5''])) = 1.5"
proof -
  let ?env = "[''VOLUMESCAN_MANUAL_THRESHOLD'' \<mapsto> ''1.5'']"
  have ok: "Settings_init plain_literals ?env = Inr (projr (Settings_init plain_literals ?env))"
    by (simp add: Settings_init_def validate_fields_def typed_field_def lit)
  have "to_float plain_literals ''1.5'' = Some 1.5"
    by (simp add: lit)
  with settings_thresholds [OF ok] show ?thesis by simp
qed

subsection \<open>What the probes depend on\<close>

text \<open>
  Claim C10. Take two processes with the same \<open>START_TIME\<close> whose settings objects agree
  on \<open>APP_NAME\<close>, \<open>APP_VERSION\<close> and \<open>VOLUMESCAN_MODEL_VERSION\<close>. At the same clock
  reading \<open>health_check\<close> returns the same response in both, and so do \<open>liveness_probe\<close>
  and \<open>readiness_probe\<close>, which also leaves the same status code: no other field of the
  settings reaches a probe's result.
\<close>

theorem probes_independent_of_other_settings:
  assumes "get_settings co1 env1 st1 = (Inr obj1, st1')"
    and "get_settings co2 env2 st2 = (Inr obj2, st2')"
    and "APP_NAME (snd obj1) = APP_NAME (snd obj2)"
    and "APP_VERSION (snd obj1) = APP_VERSION (snd obj2)"
    and "VOLUMESCAN_MODEL_VERSION (snd obj1) = VOLUMESCAN_MODEL_VERSION (snd obj2)"
    and "START_TIME st1 = START_TIME st2"
  shows "fst (health_check co1 env1 now st1) = fst (health_check co2 env2 now st2)
       \<and> fst (liveness_probe st1) = fst (liveness_probe st2)
       \<and> fst (readiness_probe response st1) = fst (readiness_probe response st2)
       \<and> fst (snd (readiness_probe response st1)) = fst (snd (readiness_probe response st2))"
proof -
  from get_settings_state [OF assms(1)] get_settings_state [OF assms(2)] assms(6)
  have "START_TIME st1' = START_TIME st2'" by simp
  with assms(1-5) have "fst (health_check co1 env1 now st1) = fst (health_check co2 env2 now st2)"
    by (simp add: health_check_def)
  moreover have "fst (liveness_probe st1) = fst (liveness_probe st2)"
    by (simp add: liveness_probe_def)
  moreover have "fst (readiness_probe response st1) = fst (readiness_probe response st2)"
    "fst (snd (readiness_probe response st1)) = fst (snd (readiness_probe response st2))"
    by (simp_all add: readiness_probe_def readiness_eval_def dict_values_def)
  ultimately show ?thesis by blast
qed

theorem probes_independent_of_other_settings_witness:
  "fst (health_check plain_literals secret_env 1012.5 fresh_process)
     = fst (health_check plain_literals Map.empty 1012.5 fresh_process)
   \<and> INTERNAL_API_KEY (projr (Settings_init plain_literals secret_env))
     \<noteq> INTERNAL_API_KEY (projr (Settings_init plain_literals Map.empty))
   \<and> PORT (projr (Settings_init plain_literals secret_env))
     \<noteq> PORT (projr (Settings_init plain_literals Map.empty))"
proof -
  obtain s1 where v1: "validate_fields plain_literals secret_env = Some s1"
    by (simp add: validate_fields_def typed_field_def secret_env_def lit)
  obtain s2 where v2: "validate_fields plain_literals Map.empty = Some s2"
    by (simp add: validate_fields_def typed_field_def)
  have fresh: "settings_cache fresh_process = None"
    by (simp add: fresh_process_def)
  have g1: "get_settings plain_literals secret_env fresh_process
      = (Inr (constructed fresh_process, s1),
         snd (get_settings plain_literals secret_env fresh_process))"
    by (simp add: get_settings_miss [OF fresh] Settings_init_def v1)
  have g2: "get_settings plain_literals Map.empty fresh_process
      = (Inr (constructed fresh_process, s2),
         snd (get_settings plain_literals Map.empty fresh_process))"
    by (simp add: get_settings_miss [OF fresh] Settings_init_def v2)
  have same: "APP_NAME (snd (constructed fresh_process, s1))
        = APP_NAME (snd (constructed fresh_process, s2))"
      "APP_VERSION (snd (constructed fresh_process, s1))
        = APP_VERSION (snd (constructed fresh_process, s2))"
      "VOLUMESCAN_MODEL_VERSION (snd (constructed fresh_process, s1))
        = VOLUMESCAN_MODEL_VERSION (snd (constructed fresh_process, s2))"
    using v1 v2
    by (auto simp: validate_fields_def typed_field_def str_field_def secret_env_def lit)
  have differ: "INTERNAL_API_KEY (projr (Settings_init plain_literals secret_env))
     \<noteq> INTERNAL_API_KEY (projr (Settings_init plain_literals Map.empty))"
    "PORT (projr (Settings_init plain_literals secret_env))
     \<noteq> PORT (projr (Settings_init plain_literals Map.empty))"
    by (simp_all add: Settings_init_def validate_fields_def typed_field_def str_field_def
        secret_env_def lit)
  from probes_independent_of_other_settings [OF g1 g2 same refl, where now = "1012.5"] differ
  show ?thesis by simp
qed

subsection \<open>Logging\<close>

text \<open>
  The renderer is chosen by comparing \<open>LOG_FORMAT\<close> with "console": on equality the
  list ends with \<open>ConsoleRenderer(colors=True)\<close>, on any other value with
  \<open>format_exc_info\<close> and \<open>JSONRenderer()\<close>. Both lists add the level and an ISO timestamp.
\<close>

lemma setup_logging_processors_renderer:
  "last (setup_logging_processors settings)
     = (if LOG_FORMAT settings = ''console'' then ConsoleRenderer True else JSONRenderer)
   \<and> (format_exc_info \<in> set (setup_logging_processors settings)
        \<longleftrightarrow> LOG_FORMAT settings \<noteq> ''console'')
   \<and> add_log_level \<in> set (setup_logging_processors settings)
   \<and> TimeStamper ''iso'' \<in> set (setup_logging_processors settings)"
  by (simp add: setup_logging_processors_def)

end
